theory Spec2Isabelle
  imports Main
begin

section \<open>JavaScript values\<close>

text \<open>
  Strings are lists of characters. A value read from the keyed store with \<open>ctx.get\<close> is
  \<open>null\<close> when the key was never set: \<open>None\<close>. An optional field that is
  \<open>undefined\<close> is \<open>None\<close> as well. The numbers of a listing (price, size, rooms,
  bathrooms) are only stored and printed, never computed with; they are whole numbers here.
\<close>

text \<open>JavaScript truthiness of \<open>string | null | undefined\<close>: the empty string is falsy.\<close>

definition truthy :: "string option \<Rightarrow> bool" where
  "truthy v = (case v of None \<Rightarrow> False | Some s \<Rightarrow> s \<noteq> [])"


text \<open>\<open>a || b\<close> on strings.\<close>

definition or_else :: "string \<Rightarrow> string \<Rightarrow> string" where
  "or_else a b = (if a \<noteq> [] then a else b)"

text \<open>\<open>(await ctx.get(key)) || []\<close>: an array is always truthy, only \<open>null\<close> falls through.\<close>

definition or_empty :: "'a list option \<Rightarrow> 'a list" where
  "or_empty v = (case v of None \<Rightarrow> [] | Some xs \<Rightarrow> xs)"

text \<open>\<open>String.prototype.includes\<close>.\<close>

fun starts_with :: "string \<Rightarrow> string \<Rightarrow> bool" where
  "starts_with s [] = True"
| "starts_with [] (c # cs) = False"
| "starts_with (d # ds) (c # cs) = (d = c \<and> starts_with ds cs)"

fun includes_str :: "string \<Rightarrow> string \<Rightarrow> bool" where
  "includes_str [] t = (t = [])"
| "includes_str (c # cs) t = (starts_with (c # cs) t \<or> includes_str cs t)"




text \<open>A number inside a template literal: decimal digits.\<close>

definition digit :: "nat \<Rightarrow> char" where
  "digit d = ''0123456789'' ! d"

fun show_nat :: "nat \<Rightarrow> string" where
  "show_nat n = (if n < 10 then [digit n] else show_nat (n div 10) @ [digit (n mod 10)])"

declare show_nat.simps [simp del]


definition nl :: string where
  "nl = [CHR 0x0A]"

text \<open>
  \<open>Array.prototype.findIndex\<close>: the index of the first element that satisfies the
  predicate; \<open>None\<close> stands for the result \<open>-1\<close>.
\<close>

fun findIndex :: "('a \<Rightarrow> bool) \<Rightarrow> 'a list \<Rightarrow> nat option" where
  "findIndex p [] = None"
| "findIndex p (x # xs) =
     (if p x then Some 0 else (case findIndex p xs of None \<Rightarrow> None | Some i \<Rightarrow> Some (Suc i)))"

text \<open>
  What a handler throws: a \<open>TerminalError\<close> ends the invocation and is reported to the
  caller; any other \<open>Error\<close> is retryable.
\<close>

datatype failure = TerminalError string | Error string

section \<open>Data model (types.ts)\<close>

text \<open>The enumerations are string literals checked at run time against these lists.\<close>

definition RenovationStatusSchema :: "string list" where
  "RenovationStatusSchema = [''new'', ''little renovation'', ''to renovate extensively'']"

definition AdStatusSchema :: "string list" where
  "AdStatusSchema =
     [''to reach out'', ''visit appointment taken'', ''sent the offer'', ''bought'', ''rejected'']"

text \<open>\<open>AdStatusSchema.safeParse(status).success\<close>.\<close>

definition safeParse_success :: "string list \<Rightarrow> string \<Rightarrow> bool" where
  "safeParse_success schema v = (v \<in> set schema)"

record PropertyAd =
  id_ad :: string
  url :: string
  source :: string
  title :: string
  price :: "int option"
  location :: string
  size_ad :: "int option"
  rooms :: "int option"
  bathrooms :: "int option"
  description :: string
  descriptionSummary :: string
  renovationStatus :: string
  features :: "string list"
  status :: string
  notes_ad :: "string option"
  adAge :: string
  scrapedAt :: string

record QuestionAnswer =
  id_qa :: string
  question :: string
  answer :: string
  askedAt :: string

text \<open>
  The keyed store of one project: the four keys the handlers read and write with
  \<open>ctx.get\<close> and \<open>ctx.set\<close>. A key that was never set reads as \<open>None\<close>.
\<close>

record state =
  criteria :: "string option"
  ads :: "PropertyAd list option"
  questions :: "QuestionAnswer list option"
  createdAt :: "string option"

text \<open>The store of a project key that no handler has run on.\<close>

definition unknown_project :: state where
  "unknown_project = \<lparr>criteria = None, ads = None, questions = None, createdAt = None\<rparr>"

section \<open>Research tracker: the handlers that only touch the store\<close>

text \<open>
  A handler that may write returns what it returns or throws, and the store as its
  \<open>ctx.set\<close> calls left it: writes made before a throw stay in the returned store.
  The argument \<open>now\<close> is what \<open>new Date().toISOString()\<close> reads from the system
  clock during this execution of the handler.
\<close>

definition createResearch :: "string \<Rightarrow> string \<Rightarrow> state \<Rightarrow> (failure + unit) \<times> state" where
  "createResearch now crit s =
     (let existingCriteria = criteria s in
      if truthy existingCriteria then
        (Inl (TerminalError
          ''Research with this name already exists. Please choose a different name.''), s)
      else
        (Inr (), s\<lparr>criteria := Some crit, ads := Some [], questions := Some [],
                    createdAt := Some now\<rparr>))"

text \<open>The shared (read-only) handlers cannot write: they return no store.\<close>

definition getCriteria :: "state \<Rightarrow> failure + string" where
  "getCriteria s =
     (let c = criteria s in
      if \<not> truthy c then Inl (TerminalError ''Research not found'')
      else Inr (case c of Some v \<Rightarrow> v | None \<Rightarrow> []))"

definition getAds :: "state \<Rightarrow> failure + PropertyAd list" where
  "getAds s = Inr (or_empty (ads s))"


definition updateAdStatus :: "string \<Rightarrow> string \<Rightarrow> state \<Rightarrow> (failure + unit) \<times> state" where
  "updateAdStatus adId st s =
     (if \<not> safeParse_success AdStatusSchema st then
        (Inl (TerminalError (''Invalid status value: '' @ st)), s)
      else
        (let ads0 = or_empty (ads s) in
         case findIndex (\<lambda>ad. id_ad ad = adId) ads0 of
           None \<Rightarrow> (Inl (TerminalError ''Property ad not found in this research''), s)
         | Some adIndex \<Rightarrow>
             (Inr (), s\<lparr>ads := Some (ads0[adIndex := (ads0 ! adIndex)\<lparr>status := st\<rparr>])\<rparr>)))"

definition updateAdNotes :: "string \<Rightarrow> string \<Rightarrow> state \<Rightarrow> (failure + unit) \<times> state" where
  "updateAdNotes adId nts s =
     (let ads0 = or_empty (ads s) in
      case findIndex (\<lambda>ad. id_ad ad = adId) ads0 of
        None \<Rightarrow> (Inl (TerminalError ''Property ad not found in this research''), s)
      | Some adIndex \<Rightarrow>
          (Inr (), s\<lparr>ads := Some (ads0[adIndex := (ads0 ! adIndex)\<lparr>notes_ad := Some nts\<rparr>])\<rparr>))"

section \<open>The outside world of one invocation\<close>

text \<open>
  Everything a handler reaches outside the store is a field of \<open>world\<close>: the platform's
  URL parser, the environment variables, the network, the browser, the HTML library and
  the language model. The fetch closure may run several times in one invocation, and the
  network may answer differently each time: \<open>http_fetch\<close> and \<open>page_goto\<close> take
  the number of earlier runs of the closure as their first argument.
\<close>

datatype provider = ScraperAPI | ScrapingBee | ZenRows | Puppeteer

datatype site = Idealista | Immobiliare

text \<open>Every call that leaves the process is recorded, in order.\<close>

datatype call = FetchCall provider string | ExtractCall site | CompletionCall string

text \<open>\<open>new URL(url)\<close>, of which the handlers read the host name only.\<close>

record URL =
  hostname :: string

text \<open>The \<open>Response\<close> of \<open>fetch\<close>; \<open>response.ok\<close> is a status in 200..299.\<close>

record response =
  resp_status :: nat
  resp_text :: string

definition ok :: "response \<Rightarrow> bool" where
  "ok r = (200 \<le> resp_status r \<and> resp_status r \<le> 299)"

text \<open>
  What launching the browser and \<open>page.goto\<close> come to: something throws (no browser
  executable, a launch failure, the 30 second navigation timeout), \<open>goto\<close> returns no
  response, or it returns one: its status, its headers printed by \<open>JSON.stringify\<close>,
  and the page content.
\<close>

datatype page_load = Throws string | NoResponse | Loaded nat string string

text \<open>The object the extraction call returns, already validated against its schema.\<close>

record extraction =
  title_x :: string
  price_x :: "int option"
  location_x :: string
  size_x :: "int option"
  rooms_x :: "int option"
  bathrooms_x :: "int option"
  description_x :: string
  descriptionSummary_x :: string
  renovationStatus_x :: string
  features_x :: "string list"
  adAge_x :: string

text \<open>
  \<open>generateObject\<close> and \<open>generateText\<close> stand for the language-model call together
  with its durable middleware: the result is what the call returns, or what it throws once
  its own retry budget is used up. The extraction call is named by its site (which fixes
  the schema, the instructions and the model) and the HTML excerpt put into the prompt.
  \<open>cleanHtmlForAI\<close> and \<open>cheerio_strip\<close> are the two clean-ups done with the HTML library.
  \<open>default_attempts\<close> is the attempt cap of the runtime's retry policy for a step that
  configures none.
\<close>

record world =
  new_URL :: "string \<Rightarrow> URL option"
  SCRAPERAPI_API_KEY :: "string option"
  SCRAPINGBEE_API_KEY :: "string option"
  ZENROWS_API_KEY :: "string option"
  http_fetch :: "nat \<Rightarrow> provider \<Rightarrow> string \<Rightarrow> string \<Rightarrow> string + response"
  page_goto :: "nat \<Rightarrow> string \<Rightarrow> page_load"
  cleanHtmlForAI :: "string \<Rightarrow> string"
  cheerio_strip :: "string \<Rightarrow> string"
  generateObject :: "site \<Rightarrow> string \<Rightarrow> failure + extraction"
  generateText :: "string \<Rightarrow> failure + string"
  default_attempts :: nat

text \<open>
  The handler's context: \<open>ctx.rand.uuidv4()\<close> draws from a generator seeded by the
  invocation, so every execution of one invocation reads the same value.
\<close>

record ctx =
  rand_uuidv4 :: string

section \<open>Fetch providers (browser-fetcher.ts)\<close>

definition provider_name :: "provider \<Rightarrow> string" where
  "provider_name p = (case p of ScraperAPI \<Rightarrow> ''ScraperAPI'' | ScrapingBee \<Rightarrow> ''ScrapingBee''
     | ZenRows \<Rightarrow> ''ZenRows'' | Puppeteer \<Rightarrow> ''Puppeteer'')"

text \<open>
  The three scraping services share one shape: one request to the service, carrying the
  API key, the target URL and the service's fixed rendering options, and any response
  that is not \<open>ok\<close> is thrown as a plain \<open>Error\<close> carrying the status.
  \<open>http_fetch w i p apiKey u\<close> is what \<open>fetch\<close> returns or throws for that request.
\<close>

definition fetchWithService ::
  "provider \<Rightarrow> world \<Rightarrow> nat \<Rightarrow> string \<Rightarrow> string \<Rightarrow> (failure + string) \<times> call list" where
  "fetchWithService p w i u apiKey =
     (case http_fetch w i p apiKey u of
        Inl m \<Rightarrow> (Inl (Error m), [FetchCall p u])
      | Inr r \<Rightarrow>
          if \<not> ok r then
            (Inl (Error (provider_name p @ '' error ('' @ show_nat (resp_status r) @ ''): ''
                    @ resp_text r @ nl @ ''URL: '' @ u)), [FetchCall p u])
          else (Inr (resp_text r), [FetchCall p u]))"

definition fetchWithScraperAPI :: "world \<Rightarrow> nat \<Rightarrow> string \<Rightarrow> string \<Rightarrow> (failure + string) \<times> call list" where
  "fetchWithScraperAPI = fetchWithService ScraperAPI"

definition fetchWithScrapingBee :: "world \<Rightarrow> nat \<Rightarrow> string \<Rightarrow> string \<Rightarrow> (failure + string) \<times> call list" where
  "fetchWithScrapingBee = fetchWithService ScrapingBee"

definition fetchWithZenRows :: "world \<Rightarrow> nat \<Rightarrow> string \<Rightarrow> string \<Rightarrow> (failure + string) \<times> call list" where
  "fetchWithZenRows = fetchWithService ZenRows"

definition fetchWithPuppeteer :: "world \<Rightarrow> nat \<Rightarrow> string \<Rightarrow> (failure + string) \<times> call list" where
  "fetchWithPuppeteer w i u =
     (case page_goto w i u of
        Throws m \<Rightarrow> (Inl (Error m), [FetchCall Puppeteer u])
      | NoResponse \<Rightarrow>
          (Inl (Error (''Failed to load page: '' @ u @ '' - No response received'')),
           [FetchCall Puppeteer u])
      | Loaded st headersStr content \<Rightarrow>
          if st = 404 then
            (Inl (Error (''Ad not found (404): '' @ u @ nl @ ''Response headers:'' @ nl
                    @ headersStr)), [FetchCall Puppeteer u])
          else if st = 403 then
            (Inl (Error (''Access denied (403): '' @ u @ nl
                    @ ''Possible anti-bot protection detected.'' @ nl
                    @ ''Response headers:'' @ nl @ headersStr @ nl
                    @ ''Body preview:'' @ nl @ take 500 content)), [FetchCall Puppeteer u])
          else if st \<ge> 500 then
            (Inl (Error (''Server error ('' @ show_nat st @ ''): '' @ u @ nl
                    @ ''Response headers:'' @ nl @ headersStr)), [FetchCall Puppeteer u])
          else if st \<noteq> 200 \<and> st \<noteq> 304 then
            (Inl (Error (''Failed to fetch ('' @ show_nat st @ ''): '' @ u @ nl
                    @ ''Response headers:'' @ nl @ headersStr)), [FetchCall Puppeteer u])
          else (Inr content, [FetchCall Puppeteer u]))"

definition the_key :: "string option \<Rightarrow> string" where
  "the_key k = (case k of None \<Rightarrow> [] | Some v \<Rightarrow> v)"

definition fetchWithBrowser :: "world \<Rightarrow> nat \<Rightarrow> string \<Rightarrow> (failure + string) \<times> call list" where
  "fetchWithBrowser w i u =
     (let scraperApiKey = SCRAPERAPI_API_KEY w;
          scrapingBeeApiKey = SCRAPINGBEE_API_KEY w;
          zenRowsApiKey = ZENROWS_API_KEY w
      in if truthy scraperApiKey then fetchWithScraperAPI w i u (the_key scraperApiKey)
         else if truthy scrapingBeeApiKey then fetchWithScrapingBee w i u (the_key scrapingBeeApiKey)
         else if truthy zenRowsApiKey then fetchWithZenRows w i u (the_key zenRowsApiKey)
         else fetchWithPuppeteer w i u)"

section \<open>Durable steps\<close>

record retry_config =
  maxRetryAttempts :: nat
  initialRetryInterval :: nat
  maxRetryInterval :: nat

definition DURABLE_AI_RETRY_CONFIG :: retry_config where
  "DURABLE_AI_RETRY_CONFIG =
     \<lparr>maxRetryAttempts = 10, initialRetryInterval = 1, maxRetryInterval = 10\<rparr>"

definition DURABLE_FETCH_RETRY_CONFIG :: retry_config where
  "DURABLE_FETCH_RETRY_CONFIG =
     \<lparr>maxRetryAttempts = 10, initialRetryInterval = 1, maxRetryInterval = 10\<rparr>"

text \<open>
  Modelled from the spec: \<open>ctx.run(name, fn, retry)\<close> is the durable runtime's step,
  a library outside the repository. The spec's section 4.1 gives its contract: a result of
  \<open>fn\<close> is returned; a terminal failure of \<open>fn\<close> fails the invocation at once; any
  other failure makes the runtime run \<open>fn\<close> again, up to an attempt cap, and when the
  cap is reached the step fails for good with the last error. \<open>run_from r i fn\<close> is the
  run number \<open>i\<close> of \<open>fn\<close> with \<open>r\<close> further runs allowed; \<open>fn\<close> always runs
  once, also under a cap of zero.
\<close>

fun run_from ::
  "nat \<Rightarrow> nat \<Rightarrow> (nat \<Rightarrow> (failure + 'a) \<times> call list) \<Rightarrow> (failure + 'a) \<times> call list" where
  "run_from r i fn =
     (case fn i of
        (Inr v, cs) \<Rightarrow> (Inr v, cs)
      | (Inl (TerminalError m), cs) \<Rightarrow> (Inl (TerminalError m), cs)
      | (Inl (Error m), cs) \<Rightarrow>
          (case r of
             0 \<Rightarrow> (Inl (TerminalError m), cs)
           | Suc r' \<Rightarrow> (case run_from r' (Suc i) fn of (res, cs') \<Rightarrow> (res, cs @ cs'))))"

declare run_from.simps [simp del]

definition ctx_run ::
  "nat \<Rightarrow> (nat \<Rightarrow> (failure + 'a) \<times> call list) \<Rightarrow> (failure + 'a) \<times> call list" where
  "ctx_run cap fn = run_from (cap - 1) 0 fn"

section \<open>Scrapers (idealista-scraper.ts, immobiliare-scraper.ts)\<close>

text \<open>Characters outside ASCII are written as their UTF-8 bytes.\<close>

definition a_grave :: string where
  "a_grave = [CHR 0xC3, CHR 0xA0]"



text \<open>
  Both scrapers parse the URL again and check the host; a failure of either is a plain
  \<open>Error\<close>. The fetch is a durable step around \<open>fetchWithBrowser\<close>; the clean-up is
  local; the extraction is one language-model call. \<open>scrapedAt\<close> is read from the system
  clock after the extraction, outside any step.
\<close>

definition scrapeIdealistaAd ::
  "world \<Rightarrow> string \<Rightarrow> string \<Rightarrow> (failure + PropertyAd) \<times> call list" where
  "scrapeIdealistaAd w now u =
     (case new_URL w u of
        None \<Rightarrow> (Inl (Error ''Invalid URL''), [])
      | Some urlObj \<Rightarrow>
          if \<not> includes_str (hostname urlObj) ''idealista.it'' then
            (Inl (Error ''URL must be from idealista.it''), [])
          else
            (case ctx_run (maxRetryAttempts DURABLE_FETCH_RETRY_CONFIG)
                    (\<lambda>i. fetchWithBrowser w i u) of
               (Inl e, cs) \<Rightarrow> (Inl e, cs)
             | (Inr html, cs) \<Rightarrow>
                 (let cleanedHtml = cleanHtmlForAI w html in
                  case generateObject w Idealista (take 40000 cleanedHtml) of
                    Inl e \<Rightarrow> (Inl e, cs @ [ExtractCall Idealista])
                  | Inr extracted \<Rightarrow>
                      (Inr \<lparr>id_ad = [],
                            url = u,
                            source = ''idealista'',
                            title = or_else (title_x extracted) ''Annuncio senza titolo'',
                            price = price_x extracted,
                            location = or_else (location_x extracted)
                              (''Localit'' @ a_grave @ '' non specificata''),
                            size_ad = size_x extracted,
                            rooms = rooms_x extracted,
                            bathrooms = bathrooms_x extracted,
                            description = or_else (description_x extracted)
                              ''Descrizione non disponibile'',
                            descriptionSummary =
                              or_else (or_else (descriptionSummary_x extracted)
                                         (take 200 (description_x extracted) @ ''...''))
                                ''Nessuna descrizione disponibile'',
                            renovationStatus = or_else (renovationStatus_x extracted)
                              ''little renovation'',
                            features = (if length (features_x extracted) > 0
                                        then features_x extracted else []),
                            status = ''to reach out'',
                            notes_ad = None,
                            adAge = or_else (adAge_x extracted) ''non specificato'',
                            scrapedAt = now\<rparr>,
                       cs @ [ExtractCall Idealista]))))"

definition scrapeImmobiliareAd ::
  "world \<Rightarrow> string \<Rightarrow> string \<Rightarrow> (failure + PropertyAd) \<times> call list" where
  "scrapeImmobiliareAd w now u =
     (case new_URL w u of
        None \<Rightarrow> (Inl (Error ''Invalid URL''), [])
      | Some urlObj \<Rightarrow>
          if \<not> includes_str (hostname urlObj) ''immobiliare.it'' then
            (Inl (Error ''URL must be from immobiliare.it''), [])
          else
            (case ctx_run (default_attempts w) (\<lambda>i. fetchWithBrowser w i u) of
               (Inl e, cs) \<Rightarrow> (Inl e, cs)
             | (Inr html, cs) \<Rightarrow>
                 (let cleanedHtml = cheerio_strip w html in
                  case generateObject w Immobiliare (take 50000 cleanedHtml) of
                    Inl e \<Rightarrow> (Inl e, cs @ [ExtractCall Immobiliare])
                  | Inr obj \<Rightarrow>
                      (Inr \<lparr>id_ad = [],
                            url = u,
                            source = ''immobiliare'',
                            title = title_x obj,
                            price = price_x obj,
                            location = location_x obj,
                            size_ad = size_x obj,
                            rooms = rooms_x obj,
                            bathrooms = bathrooms_x obj,
                            description = description_x obj,
                            descriptionSummary = descriptionSummary_x obj,
                            renovationStatus = renovationStatus_x obj,
                            features = features_x obj,
                            status = ''to reach out'',
                            notes_ad = None,
                            adAge = adAge_x obj,
                            scrapedAt = now\<rparr>,
                       cs @ [ExtractCall Immobiliare]))))"

section \<open>Research tracker: the handlers that reach the outside world\<close>

text \<open>
  These return the calls made as well. \<open>addAd\<close> writes the store once, in its last
  statement.
\<close>

definition addAd ::
  "world \<Rightarrow> ctx \<Rightarrow> string \<Rightarrow> string \<Rightarrow> state \<Rightarrow> (failure + PropertyAd) \<times> state \<times> call list" where
  "addAd w c now u s =
     (case new_URL w u of
        None \<Rightarrow> (Inl (TerminalError ''Invalid URL format''), s, [])
      | Some urlObj \<Rightarrow>
          (case (if includes_str (hostname urlObj) ''idealista.it''
                   then Some (scrapeIdealistaAd w now u)
                 else if includes_str (hostname urlObj) ''immobiliare.it''
                   then Some (scrapeImmobiliareAd w now u)
                 else None) of
             None \<Rightarrow>
               (Inl (TerminalError ''Only idealista.it and immobiliare.it URLs are supported''),
                s, [])
           | Some (Inl e, cs) \<Rightarrow> (Inl e, s, cs)
           | Some (Inr scrapedAd, cs) \<Rightarrow>
               (let adId = rand_uuidv4 c;
                    propertyAd = scrapedAd\<lparr>id_ad := adId\<rparr>;
                    ads0 = or_empty (ads s);
                    ads1 = ads0 @ [propertyAd]
                in (Inr propertyAd, s\<lparr>ads := Some ads1\<rparr>, cs))))"







section \<open>Comparing two executions of one invocation\<close>




section \<open>Example inputs\<close>

text \<open>A small URL parser that knows three kinds of address, for the examples below.\<close>

definition example_new_URL :: "string \<Rightarrow> URL option" where
  "example_new_URL u =
     (if starts_with u ''https://www.idealista.it/'' then
        Some \<lparr>hostname = ''www.idealista.it''\<rparr>
      else if starts_with u ''https://www.immobiliare.it/'' then
        Some \<lparr>hostname = ''www.immobiliare.it''\<rparr>
      else if starts_with u ''https://'' then Some \<lparr>hostname = ''unsupported-site.example''\<rparr>
      else None)"

definition example_extraction :: extraction where
  "example_extraction =
     \<lparr>title_x = ''Trilocale via Roma'', price_x = Some 250000, location_x = ''Milano'',
      size_x = Some 85, rooms_x = Some 3, bathrooms_x = None,
      description_x = ''Luminoso trilocale'', descriptionSummary_x = ''Trilocale, 85 mq'',
      renovationStatus_x = ''new'', features_x = [''ascensore''], adAge_x = ''oggi''\<rparr>"

text \<open>
  A world with no scraping-service key, where the browser loads every page, the
  extraction returns \<open>example_extraction\<close> and the model answers every question.
\<close>

definition example_world :: world where
  "example_world =
     \<lparr>new_URL = example_new_URL,
      SCRAPERAPI_API_KEY = None, SCRAPINGBEE_API_KEY = None, ZENROWS_API_KEY = None,
      http_fetch = (\<lambda>i p k u. Inl ''fetch failed''),
      page_goto = (\<lambda>i u. Loaded 200 ''{}'' ''<html>listing</html>''),
      cleanHtmlForAI = (\<lambda>h. h),
      cheerio_strip = (\<lambda>h. h),
      generateObject = (\<lambda>st excerpt. Inr example_extraction),
      generateText = (\<lambda>p. Inr ''Property 1 is the cheapest.''),
      default_attempts = 3\<rparr>"

definition example_ad :: "string \<Rightarrow> PropertyAd" where
  "example_ad i =
     \<lparr>id_ad = i, url = ''https://www.idealista.it/immobile/1/'', source = ''idealista'',
      title = ''Trilocale via Roma'', price = Some 250000, location = ''Milano'',
      size_ad = Some 85, rooms = Some 3, bathrooms = None,
      description = ''Luminoso trilocale'', descriptionSummary = ''Trilocale, 85 mq'',
      renovationStatus = ''new'', features = [''ascensore''], status = ''to reach out'',
      notes_ad = None, adAge = ''oggi'', scrapedAt = ''2026-01-01T09:00:00.000Z''\<rparr>"

text \<open>The browser gets a 404 on the first run of the fetch closure and the page afterwards.\<close>

definition world_404_then_200 :: world where
  "world_404_then_200 =
     example_world\<lparr>page_goto :=
       (\<lambda>i u. if i = 0 then Loaded 404 ''{}'' [] else Loaded 200 ''{}'' ''<html>listing</html>'')\<rparr>"

text \<open>The browser gets a 404 every time.\<close>

definition world_always_404 :: world where
  "world_always_404 = example_world\<lparr>page_goto := (\<lambda>i u. Loaded 404 ''{}'' [])\<rparr>"

text \<open>
  A ScraperAPI key is configured and the service answers 500 every time, while the
  browser would load the page.
\<close>

definition world_service_down :: world where
  "world_service_down =
     example_world\<lparr>SCRAPERAPI_API_KEY := Some ''key'',
       http_fetch := (\<lambda>i p k u. Inr \<lparr>resp_status = 500, resp_text = ''upstream error''\<rparr>)\<rparr>"

text \<open>The extraction succeeds and leaves every text field empty.\<close>

definition world_empty_fields :: world where
  "world_empty_fields =
     example_world\<lparr>generateObject := (\<lambda>st excerpt.
       Inr \<lparr>title_x = [], price_x = None, location_x = [], size_x = None, rooms_x = None,
            bathrooms_x = None, description_x = [], descriptionSummary_x = [],
            renovationStatus_x = ''new'', features_x = [], adAge_x = []\<rparr>)\<rparr>"

section \<open>Auxiliary facts\<close>

lemma or_empty_simps [simp]: "or_empty None = []" "or_empty (Some xs) = xs"
  by (simp_all add: or_empty_def)

lemma findIndex_None: "findIndex p xs = None \<longleftrightarrow> (\<forall>x\<in>set xs. \<not> p x)"
  by (induction xs) (auto split: option.splits)

lemma findIndex_Some:
  "findIndex p xs = Some i \<Longrightarrow>
     i < length xs \<and> p (xs ! i) \<and> (\<forall>a\<in>set (take i xs). \<not> p a)"
proof (induction xs arbitrary: i)
  case Nil
  then show ?case by simp
next
  case (Cons x xs)
  show ?case
  proof (cases "p x")
    case True
    with Cons.prems show ?thesis by simp
  next
    case False
    with Cons.prems obtain j where j: "findIndex p xs = Some j" "i = Suc j"
      by (auto split: option.splits)
    from Cons.IH[OF j(1)] False j(2) show ?thesis by simp
  qed
qed

lemma update_split:
  "i < length xs \<Longrightarrow> xs = take i xs @ xs ! i # drop (Suc i) xs
     \<and> xs[i := v] = take i xs @ v # drop (Suc i) xs"
  by (simp add: id_take_nth_drop[symmetric] upd_conv_take_nth_drop)

lemma findIndex_first_match:
  assumes "\<exists>x\<in>set xs. p x"
  shows "\<exists>pre x post. xs = pre @ x # post \<and> (\<forall>a\<in>set pre. \<not> p a) \<and> p x
           \<and> findIndex p xs = Some (length pre)"
proof -
  from assms obtain i where i: "findIndex p xs = Some i"
    using findIndex_None[of p xs] by (cases "findIndex p xs") auto
  from findIndex_Some[OF i] have b: "i < length xs" "p (xs ! i)" "\<forall>a\<in>set (take i xs). \<not> p a"
    by simp_all
  from update_split[OF b(1)] have "xs = take i xs @ xs ! i # drop (Suc i) xs" by simp
  moreover have "length (take i xs) = i" using b(1) by simp
  ultimately show ?thesis using b i by metis
qed




text \<open>A step whose closure makes the same single call on every run.\<close>

lemma run_from_calls:
  "(\<forall>j. snd (fn j) = [c]) \<Longrightarrow> \<exists>k. snd (run_from r i fn) = replicate (Suc k) c"
proof (induction r arbitrary: i)
  case 0
  then have "snd (fn i) = [c]" by simp
  then have "snd (run_from 0 i fn) = [c]"
    by (cases "fn i") (auto simp: run_from.simps split: sum.splits failure.splits)
  then show ?case by (metis replicate_Suc replicate_0)
next
  case (Suc r)
  from Suc.IH[OF Suc.prems] obtain k where k: "snd (run_from r (Suc i) fn) = replicate (Suc k) c"
    by blast
  have a: "snd (fn i) = [c]" using Suc.prems by simp
  have "snd (run_from (Suc r) i fn) = [c]
        \<or> snd (run_from (Suc r) i fn) = c # replicate (Suc k) c"
    using a k
    by (cases "fn i")
      (auto simp: run_from.simps[of "Suc r"] split: sum.splits failure.splits prod.splits)
  then show ?case by (metis replicate_Suc replicate_0)
qed




text \<open>Unfolding sets for evaluating the examples.\<close>

lemmas world_defs = example_world_def example_new_URL_def example_extraction_def
  world_404_then_200_def world_always_404_def world_service_down_def world_empty_fields_def

lemmas fetch_defs = fetchWithBrowser_def fetchWithScraperAPI_def fetchWithScrapingBee_def
  fetchWithZenRows_def fetchWithService_def fetchWithPuppeteer_def ctx_run_def run_from.simps
  truthy_def the_key_def ok_def provider_name_def show_nat.simps digit_def nl_def
  DURABLE_FETCH_RETRY_CONFIG_def

lemmas scrape_defs = scrapeIdealistaAd_def scrapeImmobiliareAd_def or_else_def a_grave_def

section \<open>The claims\<close>

text \<open>
  C1. \<open>addAd\<close> is atomic. Whenever an execution of \<open>addAd\<close> fails, for whatever
  reason (the URL does not parse, the host is not supported, the fetch step used up its
  attempts, the extraction failed), the store it leaves is the store it started from:
  nothing was appended, and \<open>getAds\<close> afterwards returns what it returned before.
\<close>

theorem addAd_atomic:
  assumes "fst (addAd w c now u s) = Inl e"
  shows "fst (snd (addAd w c now u s)) = s
         \<and> getAds (fst (snd (addAd w c now u s))) = getAds s"
  using assms
  by (auto simp: addAd_def Let_def split: option.splits if_splits sum.splits prod.splits)

text \<open>
  The instance: a project holding one ad, and a listing whose page is a 404 on every
  attempt of the fetch step.
\<close>

theorem addAd_atomic_witness:
  "fst (addAd world_always_404 \<lparr>rand_uuidv4 = ''uuid-2''\<rparr> ''2026-01-02T09:00:00.000Z''
          ''https://www.idealista.it/immobile/2/''
          (unknown_project\<lparr>ads := Some [example_ad ''uuid-1'']\<rparr>))
     = Inl (TerminalError (''Ad not found (404): https://www.idealista.it/immobile/2/'' @ nl
              @ ''Response headers:'' @ nl @ ''{}''))
   \<and> fst (snd (addAd world_always_404 \<lparr>rand_uuidv4 = ''uuid-2''\<rparr> ''2026-01-02T09:00:00.000Z''
          ''https://www.idealista.it/immobile/2/''
          (unknown_project\<lparr>ads := Some [example_ad ''uuid-1'']\<rparr>)))
     = unknown_project\<lparr>ads := Some [example_ad ''uuid-1'']\<rparr>
   \<and> getAds (fst (snd (addAd world_always_404 \<lparr>rand_uuidv4 = ''uuid-2''\<rparr>
          ''2026-01-02T09:00:00.000Z'' ''https://www.idealista.it/immobile/2/''
          (unknown_project\<lparr>ads := Some [example_ad ''uuid-1'']\<rparr>))))
     = Inr [example_ad ''uuid-1'']"
proof -
  have h: "fst (addAd world_always_404 \<lparr>rand_uuidv4 = ''uuid-2''\<rparr> ''2026-01-02T09:00:00.000Z''
          ''https://www.idealista.it/immobile/2/''
          (unknown_project\<lparr>ads := Some [example_ad ''uuid-1'']\<rparr>))
     = Inl (TerminalError (''Ad not found (404): https://www.idealista.it/immobile/2/'' @ nl
              @ ''Response headers:'' @ nl @ ''{}''))"
    by (simp add: addAd_def world_defs fetch_defs scrape_defs)
  from addAd_atomic[OF h] h show ?thesis by (simp add: getAds_def unknown_project_def)
qed

subsection \<open>Two executions with different clock readings\<close>











text \<open>
  C3, as amended. \<open>createResearch\<close> fails with the "already exists" error exactly when
  the stored criteria is a non-empty string, and then leaves the store as it was.
  Otherwise (no criteria stored, or the empty string stored) it stores the argument as
  criteria, an empty ad list, an empty question list and the creation time. After a
  creation with a non-empty criteria, every further \<open>createResearch\<close> on the key fails
  and changes nothing.
\<close>

theorem createResearch_already_exists:
  "(fst (createResearch now c s) =
      Inl (TerminalError
        ''Research with this name already exists. Please choose a different name.'')
      \<longleftrightarrow> truthy (criteria s))
   \<and> (truthy (criteria s) \<longrightarrow> snd (createResearch now c s) = s)
   \<and> (\<not> truthy (criteria s) \<longrightarrow>
        createResearch now c s =
          (Inr (), s\<lparr>criteria := Some c, ads := Some [], questions := Some [],
                      createdAt := Some now\<rparr>))
   \<and> (\<not> truthy (criteria s) \<and> c \<noteq> [] \<longrightarrow>
        createResearch now' c' (snd (createResearch now c s)) =
          (Inl (TerminalError
             ''Research with this name already exists. Please choose a different name.''),
           snd (createResearch now c s)))"
  by (simp add: createResearch_def truthy_def split: option.splits)

text \<open>The scenario of the spec: a project is created, and created again.\<close>

theorem createResearch_already_exists_witness:
  "createResearch ''2026-01-02T00:00:00.000Z'' ''anything''
     (snd (createResearch ''2026-01-01T00:00:00.000Z'' ''2 bed Milan under 300k''
        unknown_project)) =
   (Inl (TerminalError
      ''Research with this name already exists. Please choose a different name.''),
    \<lparr>criteria = Some ''2 bed Milan under 300k'', ads = Some [], questions = Some [],
     createdAt = Some ''2026-01-01T00:00:00.000Z''\<rparr>)"
  using createResearch_already_exists[of "''2026-01-01T00:00:00.000Z''"
      "''2 bed Milan under 300k''" unknown_project "''2026-01-02T00:00:00.000Z''" "''anything''"]
    createResearch_already_exists[of "''2026-01-02T00:00:00.000Z''" "''anything''"
      "\<lparr>criteria = Some ''2 bed Milan under 300k'', ads = Some [], questions = Some [],
        createdAt = Some ''2026-01-01T00:00:00.000Z''\<rparr>"]
  by (simp add: createResearch_def truthy_def unknown_project_def)

text \<open>
  The claim as stated fails where the stored criteria is the empty string: the criteria
  is set, and \<open>createResearch\<close> does not fail but overwrites the project.
\<close>

theorem second_create_succeeds_on_empty_criteria:
  "criteria \<lparr>criteria = Some [], ads = Some [], questions = Some [],
             createdAt = Some ''2026-01-01T00:00:00.000Z''\<rparr> = Some []
   \<and> createResearch ''2026-01-02T00:00:00.000Z'' ''2 bed Milan under 300k''
       \<lparr>criteria = Some [], ads = Some [], questions = Some [],
        createdAt = Some ''2026-01-01T00:00:00.000Z''\<rparr>
     = (Inr (), \<lparr>criteria = Some ''2 bed Milan under 300k'', ads = Some [],
                 questions = Some [], createdAt = Some ''2026-01-02T00:00:00.000Z''\<rparr>)"
  by (simp add: createResearch_def truthy_def)

text \<open>
  C4. \<open>updateAdStatus\<close> fails with the validation error when the status is outside
  the enumeration, whatever the id; it fails with the not-found error when no ad has the
  id, and the store stays as it was. Otherwise the first ad with the id gets the new
  status: the ads before it and after it, its other fields, and the rest of the store are
  unchanged. \<open>updateAdNotes\<close> does the same with the notes field, without the
  enumeration check.
\<close>

theorem update_frame:
  "(st \<notin> set AdStatusSchema \<longrightarrow>
      updateAdStatus adId st s = (Inl (TerminalError (''Invalid status value: '' @ st)), s))
   \<and> (st \<in> set AdStatusSchema \<and> (\<forall>ad\<in>set (or_empty (ads s)). id_ad ad \<noteq> adId) \<longrightarrow>
      updateAdStatus adId st s =
        (Inl (TerminalError ''Property ad not found in this research''), s))
   \<and> ((\<forall>ad\<in>set (or_empty (ads s)). id_ad ad \<noteq> adId) \<longrightarrow>
      updateAdNotes adId nts s =
        (Inl (TerminalError ''Property ad not found in this research''), s))
   \<and> ((\<exists>ad\<in>set (or_empty (ads s)). id_ad ad = adId) \<longrightarrow>
      (\<exists>pre ad post. or_empty (ads s) = pre @ ad # post
         \<and> (\<forall>a\<in>set pre. id_ad a \<noteq> adId) \<and> id_ad ad = adId
         \<and> (st \<in> set AdStatusSchema \<longrightarrow>
              updateAdStatus adId st s =
                (Inr (), s\<lparr>ads := Some (pre @ ad\<lparr>status := st\<rparr> # post)\<rparr>))
         \<and> updateAdNotes adId nts s =
                (Inr (), s\<lparr>ads := Some (pre @ ad\<lparr>notes_ad := Some nts\<rparr> # post)\<rparr>)))"
proof (intro conjI impI)
  show "updateAdStatus adId st s = (Inl (TerminalError (''Invalid status value: '' @ st)), s)"
    if "st \<notin> set AdStatusSchema"
    using that by (simp add: updateAdStatus_def safeParse_success_def)
next
  assume a: "st \<in> set AdStatusSchema \<and> (\<forall>ad\<in>set (or_empty (ads s)). id_ad ad \<noteq> adId)"
  then have "findIndex (\<lambda>ad. id_ad ad = adId) (or_empty (ads s)) = None"
    by (simp add: findIndex_None)
  with a show "updateAdStatus adId st s =
      (Inl (TerminalError ''Property ad not found in this research''), s)"
    by (simp add: updateAdStatus_def safeParse_success_def)
next
  assume "\<forall>ad\<in>set (or_empty (ads s)). id_ad ad \<noteq> adId"
  then have "findIndex (\<lambda>ad. id_ad ad = adId) (or_empty (ads s)) = None"
    by (simp add: findIndex_None)
  then show "updateAdNotes adId nts s =
      (Inl (TerminalError ''Property ad not found in this research''), s)"
    by (simp add: updateAdNotes_def)
next
  assume "\<exists>ad\<in>set (or_empty (ads s)). id_ad ad = adId"
  from findIndex_first_match[of "or_empty (ads s)" "\<lambda>ad. id_ad ad = adId", OF this]
  obtain pre ad post where sp: "or_empty (ads s) = pre @ ad # post"
    "\<forall>a\<in>set pre. id_ad a \<noteq> adId" "id_ad ad = adId"
    "findIndex (\<lambda>ad. id_ad ad = adId) (or_empty (ads s)) = Some (length pre)"
    by blast
  have st: "st \<in> set AdStatusSchema \<longrightarrow> updateAdStatus adId st s =
      (Inr (), s\<lparr>ads := Some (pre @ ad\<lparr>status := st\<rparr> # post)\<rparr>)"
    using sp(1,4) by (simp add: updateAdStatus_def safeParse_success_def)
  have nt: "updateAdNotes adId nts s =
      (Inr (), s\<lparr>ads := Some (pre @ ad\<lparr>notes_ad := Some nts\<rparr> # post)\<rparr>)"
    using sp(1,4) by (simp add: updateAdNotes_def)
  from sp(1,2,3) st nt
  show "\<exists>pre ad post. or_empty (ads s) = pre @ ad # post
         \<and> (\<forall>a\<in>set pre. id_ad a \<noteq> adId) \<and> id_ad ad = adId
         \<and> (st \<in> set AdStatusSchema \<longrightarrow>
              updateAdStatus adId st s =
                (Inr (), s\<lparr>ads := Some (pre @ ad\<lparr>status := st\<rparr> # post)\<rparr>))
         \<and> updateAdNotes adId nts s =
                (Inr (), s\<lparr>ads := Some (pre @ ad\<lparr>notes_ad := Some nts\<rparr> # post)\<rparr>)"
    by blast
qed

text \<open>
  The instance: a project with two ads. The second one gets a status and a note, the
  first one is untouched; an unknown id and a status outside the enumeration fail and
  leave the store as it was.
\<close>

theorem update_frame_witness:
  "updateAdStatus ''uuid-2'' ''visit appointment taken''
     (unknown_project\<lparr>ads := Some [example_ad ''uuid-1'', example_ad ''uuid-2'']\<rparr>)
   = (Inr (), unknown_project\<lparr>ads := Some [example_ad ''uuid-1'',
         (example_ad ''uuid-2'')\<lparr>status := ''visit appointment taken''\<rparr>]\<rparr>)
   \<and> updateAdNotes ''uuid-2'' ''call the agent''
     (unknown_project\<lparr>ads := Some [example_ad ''uuid-1'', example_ad ''uuid-2'']\<rparr>)
   = (Inr (), unknown_project\<lparr>ads := Some [example_ad ''uuid-1'',
         (example_ad ''uuid-2'')\<lparr>notes_ad := Some ''call the agent''\<rparr>]\<rparr>)
   \<and> updateAdStatus ''uuid-3'' ''bought''
     (unknown_project\<lparr>ads := Some [example_ad ''uuid-1'', example_ad ''uuid-2'']\<rparr>)
   = (Inl (TerminalError ''Property ad not found in this research''),
      unknown_project\<lparr>ads := Some [example_ad ''uuid-1'', example_ad ''uuid-2'']\<rparr>)
   \<and> updateAdNotes ''uuid-3'' ''call the agent''
     (unknown_project\<lparr>ads := Some [example_ad ''uuid-1'', example_ad ''uuid-2'']\<rparr>)
   = (Inl (TerminalError ''Property ad not found in this research''),
      unknown_project\<lparr>ads := Some [example_ad ''uuid-1'', example_ad ''uuid-2'']\<rparr>)
   \<and> updateAdStatus ''uuid-3'' ''sold''
     (unknown_project\<lparr>ads := Some [example_ad ''uuid-1'', example_ad ''uuid-2'']\<rparr>)
   = (Inl (TerminalError ''Invalid status value: sold''),
      unknown_project\<lparr>ads := Some [example_ad ''uuid-1'', example_ad ''uuid-2'']\<rparr>)"
  using update_frame[of "''visit appointment taken''" "''uuid-2''"
      "unknown_project\<lparr>ads := Some [example_ad ''uuid-1'', example_ad ''uuid-2'']\<rparr>"
      "''call the agent''"]
    update_frame[of "''bought''" "''uuid-3''"
      "unknown_project\<lparr>ads := Some [example_ad ''uuid-1'', example_ad ''uuid-2'']\<rparr>"
      "''call the agent''"]
    update_frame[of "''sold''" "''uuid-3''"
      "unknown_project\<lparr>ads := Some [example_ad ''uuid-1'', example_ad ''uuid-2'']\<rparr>"
      "''call the agent''"]
  by (simp add: updateAdStatus_def updateAdNotes_def safeParse_success_def AdStatusSchema_def
      example_ad_def unknown_project_def)






lemma fetchWithService_calls: "snd (fetchWithService p w i u k) = [FetchCall p u]"
  by (simp add: fetchWithService_def split: sum.splits)

lemma fetchWithPuppeteer_calls: "snd (fetchWithPuppeteer w i u) = [FetchCall Puppeteer u]"
  by (simp add: fetchWithPuppeteer_def split: page_load.splits)

lemma fetchWithBrowser_calls: "\<exists>p. \<forall>j. snd (fetchWithBrowser w j u) = [FetchCall p u]"
  by (auto simp: fetchWithBrowser_def fetchWithScraperAPI_def fetchWithScrapingBee_def
      fetchWithZenRows_def fetchWithService_calls fetchWithPuppeteer_calls Let_def)

text \<open>
  C7, as amended. \<open>fetchWithBrowser\<close> picks one provider from the configuration, in
  the order ScraperAPI, ScrapingBee, ZenRows, and the browser when no key is set. The
  result of the fetch is that provider's result: when it fails no other provider is
  tried. Every attempt of a fetch step calls the same single provider.
\<close>

theorem provider_selection:
  "(truthy (SCRAPERAPI_API_KEY w) \<longrightarrow>
      fetchWithBrowser w i u = fetchWithScraperAPI w i u (the_key (SCRAPERAPI_API_KEY w)))
   \<and> (\<not> truthy (SCRAPERAPI_API_KEY w) \<and> truthy (SCRAPINGBEE_API_KEY w) \<longrightarrow>
      fetchWithBrowser w i u = fetchWithScrapingBee w i u (the_key (SCRAPINGBEE_API_KEY w)))
   \<and> (\<not> truthy (SCRAPERAPI_API_KEY w) \<and> \<not> truthy (SCRAPINGBEE_API_KEY w)
        \<and> truthy (ZENROWS_API_KEY w) \<longrightarrow>
      fetchWithBrowser w i u = fetchWithZenRows w i u (the_key (ZENROWS_API_KEY w)))
   \<and> (\<not> truthy (SCRAPERAPI_API_KEY w) \<and> \<not> truthy (SCRAPINGBEE_API_KEY w)
        \<and> \<not> truthy (ZENROWS_API_KEY w) \<longrightarrow>
      fetchWithBrowser w i u = fetchWithPuppeteer w i u)
   \<and> (\<exists>p. (\<forall>j. snd (fetchWithBrowser w j u) = [FetchCall p u])
          \<and> (\<exists>k. snd (ctx_run cap (\<lambda>j. fetchWithBrowser w j u))
                  = replicate (Suc k) (FetchCall p u)))"
proof -
  from fetchWithBrowser_calls[of w u]
  obtain p where p: "\<forall>j. snd (fetchWithBrowser w j u) = [FetchCall p u]" by blast
  from run_from_calls[of "\<lambda>j. fetchWithBrowser w j u" "FetchCall p u" "cap - 1" 0] p
  have "\<exists>k. snd (ctx_run cap (\<lambda>j. fetchWithBrowser w j u)) = replicate (Suc k) (FetchCall p u)"
    by (simp add: ctx_run_def)
  with p have last: "\<exists>p. (\<forall>j. snd (fetchWithBrowser w j u) = [FetchCall p u])
          \<and> (\<exists>k. snd (ctx_run cap (\<lambda>j. fetchWithBrowser w j u))
                  = replicate (Suc k) (FetchCall p u))"
    by blast
  show ?thesis using last by (simp add: fetchWithBrowser_def)
qed

text \<open>The instances: one configuration for each of the four providers.\<close>

theorem provider_selection_witness:
  "fetchWithBrowser world_service_down 0 ''https://www.idealista.it/immobile/1/''
   = fetchWithScraperAPI world_service_down 0 ''https://www.idealista.it/immobile/1/'' ''key''
   \<and> fetchWithBrowser example_world 0 ''https://www.idealista.it/immobile/1/''
   = fetchWithPuppeteer example_world 0 ''https://www.idealista.it/immobile/1/''
   \<and> fetchWithBrowser (example_world\<lparr>SCRAPINGBEE_API_KEY := Some ''bee''\<rparr>) 0
        ''https://www.idealista.it/immobile/1/''
   = fetchWithScrapingBee (example_world\<lparr>SCRAPINGBEE_API_KEY := Some ''bee''\<rparr>) 0
        ''https://www.idealista.it/immobile/1/'' ''bee''
   \<and> fetchWithBrowser (example_world\<lparr>SCRAPERAPI_API_KEY := Some [],
          ZENROWS_API_KEY := Some ''zen''\<rparr>) 0 ''https://www.idealista.it/immobile/1/''
   = fetchWithZenRows (example_world\<lparr>SCRAPERAPI_API_KEY := Some [],
          ZENROWS_API_KEY := Some ''zen''\<rparr>) 0 ''https://www.idealista.it/immobile/1/'' ''zen''"
  using provider_selection[of world_service_down 0 "''https://www.idealista.it/immobile/1/''" 10]
    provider_selection[of example_world 0 "''https://www.idealista.it/immobile/1/''" 10]
    provider_selection[of "example_world\<lparr>SCRAPINGBEE_API_KEY := Some ''bee''\<rparr>" 0
       "''https://www.idealista.it/immobile/1/''" 10]
    provider_selection[of "example_world\<lparr>SCRAPERAPI_API_KEY := Some [],
          ZENROWS_API_KEY := Some ''zen''\<rparr>" 0 "''https://www.idealista.it/immobile/1/''" 10]
  by (simp add: world_defs truthy_def the_key_def)

text \<open>
  The claim as stated fails: with a ScraperAPI key configured and the service answering
  500, the fetch step gives up after ten attempts on ScraperAPI alone, although the
  browser would have loaded the page.
\<close>

theorem no_fallback_example:
  "fst (ctx_run (maxRetryAttempts DURABLE_FETCH_RETRY_CONFIG)
      (\<lambda>i. fetchWithBrowser world_service_down i ''https://www.idealista.it/immobile/1/''))
   = Inl (TerminalError (''ScraperAPI error (500): upstream error'' @ nl
         @ ''URL: https://www.idealista.it/immobile/1/''))
   \<and> set (snd (ctx_run (maxRetryAttempts DURABLE_FETCH_RETRY_CONFIG)
      (\<lambda>i. fetchWithBrowser world_service_down i ''https://www.idealista.it/immobile/1/'')))
   = {FetchCall ScraperAPI ''https://www.idealista.it/immobile/1/''}
   \<and> fetchWithPuppeteer world_service_down 0 ''https://www.idealista.it/immobile/1/''
   = (Inr ''<html>listing</html>'', [FetchCall Puppeteer ''https://www.idealista.it/immobile/1/''])"
  by (simp add: world_defs fetch_defs)

text \<open>
  The idealista scraper replaces every empty text field of the extraction by a non-empty
  fallback.
\<close>

lemma idealista_fills_text_fields:
  assumes "fst (scrapeIdealistaAd w now u) = Inr ad"
  shows "title ad \<noteq> [] \<and> location ad \<noteq> [] \<and> description ad \<noteq> []
         \<and> descriptionSummary ad \<noteq> [] \<and> renovationStatus ad \<noteq> [] \<and> adAge ad \<noteq> []"
proof -
  from assms obtain urlObj where u: "new_URL w u = Some urlObj"
    by (cases "new_URL w u") (auto simp: scrapeIdealistaAd_def)
  from assms u have inc: "includes_str (hostname urlObj) ''idealista.it''"
    by (auto simp: scrapeIdealistaAd_def split: if_splits)
  obtain r cs where f: "ctx_run (maxRetryAttempts DURABLE_FETCH_RETRY_CONFIG)
      (\<lambda>i. fetchWithBrowser w i u) = (r, cs)"
    by (cases "ctx_run (maxRetryAttempts DURABLE_FETCH_RETRY_CONFIG)
      (\<lambda>i. fetchWithBrowser w i u)")
  from assms u inc f obtain html where r: "r = Inr html"
    by (cases r) (auto simp: scrapeIdealistaAd_def)
  from assms u inc f r obtain x where
    x: "generateObject w Idealista (take 40000 (cleanHtmlForAI w html)) = Inr x"
    by (cases "generateObject w Idealista (take 40000 (cleanHtmlForAI w html))")
      (auto simp: scrapeIdealistaAd_def Let_def)
  from assms u inc f r x have
    "title ad = or_else (title_x x) ''Annuncio senza titolo''"
    "location ad = or_else (location_x x) (''Localit'' @ a_grave @ '' non specificata'')"
    "description ad = or_else (description_x x) ''Descrizione non disponibile''"
    "descriptionSummary ad = or_else (or_else (descriptionSummary_x x)
        (take 200 (description_x x) @ ''...'')) ''Nessuna descrizione disponibile''"
    "renovationStatus ad = or_else (renovationStatus_x x) ''little renovation''"
    "adAge ad = or_else (adAge_x x) ''non specificato''"
    by (auto simp: scrapeIdealistaAd_def Let_def)
  then show ?thesis by (simp add: or_else_def)
qed

text \<open>
  C8. The extraction succeeds and leaves the text fields empty. The immobiliare scraper
  copies them as they are: the ad has an empty title, location, description, summary and
  ad age. The idealista scraper, on the same extraction, fills each of them. The optional
  numbers stay absent in both.
\<close>

theorem immobiliare_keeps_empty_fields:
  "fst (scrapeImmobiliareAd world_empty_fields ''2026-01-01T09:00:00.000Z''
      ''https://www.immobiliare.it/annunci/1/'')
   = Inr \<lparr>id_ad = [], url = ''https://www.immobiliare.it/annunci/1/'', source = ''immobiliare'',
      title = [], price = None, location = [], size_ad = None, rooms = None, bathrooms = None,
      description = [], descriptionSummary = [], renovationStatus = ''new'', features = [],
      status = ''to reach out'', notes_ad = None, adAge = [],
      scrapedAt = ''2026-01-01T09:00:00.000Z''\<rparr>
   \<and> fst (scrapeIdealistaAd world_empty_fields ''2026-01-01T09:00:00.000Z''
      ''https://www.idealista.it/immobile/1/'')
   = Inr \<lparr>id_ad = [], url = ''https://www.idealista.it/immobile/1/'', source = ''idealista'',
      title = ''Annuncio senza titolo'', price = None,
      location = ''Localit'' @ a_grave @ '' non specificata'', size_ad = None, rooms = None,
      bathrooms = None, description = ''Descrizione non disponibile'',
      descriptionSummary = ''...'', renovationStatus = ''new'', features = [],
      status = ''to reach out'', notes_ad = None, adAge = ''non specificato'',
      scrapedAt = ''2026-01-01T09:00:00.000Z''\<rparr>"
  by (simp add: world_defs fetch_defs scrape_defs)



text \<open>
  C10. On a project without (non-empty) criteria, \<open>createResearch\<close> with the empty
  string succeeds and overwrites the ad list and the question list with empty lists; the
  project still does not exist afterwards: any further \<open>createResearch\<close> succeeds again
  and \<open>getCriteria\<close> still fails with the not-found error.
\<close>

theorem create_with_empty_criteria:
  assumes "\<not> truthy (criteria s)"
  shows "createResearch now [] s =
           (Inr (), s\<lparr>criteria := Some [], ads := Some [], questions := Some [],
                       createdAt := Some now\<rparr>)
         \<and> fst (createResearch now' crit' (snd (createResearch now [] s))) = Inr ()
         \<and> getCriteria (snd (createResearch now [] s))
             = Inl (TerminalError ''Research not found'')"
  using assms by (simp add: createResearch_def getCriteria_def truthy_def)

text \<open>The instance: a key that holds one ad and no criteria.\<close>

theorem create_with_empty_criteria_witness:
  "\<not> truthy (criteria (unknown_project\<lparr>ads := Some [example_ad ''uuid-1'']\<rparr>))
   \<and> createResearch ''2026-01-01T00:00:00.000Z'' []
        (unknown_project\<lparr>ads := Some [example_ad ''uuid-1'']\<rparr>)
     = (Inr (), \<lparr>criteria = Some [], ads = Some [], questions = Some [],
                 createdAt = Some ''2026-01-01T00:00:00.000Z''\<rparr>)
   \<and> fst (createResearch ''2026-01-02T00:00:00.000Z'' ''2 bed Milan under 300k''
        (snd (createResearch ''2026-01-01T00:00:00.000Z'' []
           (unknown_project\<lparr>ads := Some [example_ad ''uuid-1'']\<rparr>)))) = Inr ()
   \<and> getCriteria (snd (createResearch ''2026-01-01T00:00:00.000Z'' []
           (unknown_project\<lparr>ads := Some [example_ad ''uuid-1'']\<rparr>)))
     = Inl (TerminalError ''Research not found'')"
proof -
  have h: "\<not> truthy (criteria (unknown_project\<lparr>ads := Some [example_ad ''uuid-1'']\<rparr>))"
    by (simp add: unknown_project_def truthy_def)
  from create_with_empty_criteria[OF h, of "''2026-01-01T00:00:00.000Z''"
      "''2026-01-02T00:00:00.000Z''" "''2 bed Milan under 300k''"] h
  show ?thesis by (simp add: unknown_project_def createResearch_def getCriteria_def truthy_def)
qed

end
